theory Spec2Isabelle
  imports Main
begin

section \<open>Responses and handler effects\<close>

text \<open>
  The services are gin engines whose handlers answer with \<^verbatim>\<open>c.JSON(code, obj)\<close>.
  A JSON value is a tree. An object keeps its members as the source lists them: for
  a \<^verbatim>\<open>gin.H\<close> (a Go map) the encoder writes them sorted by key, for a struct in
  field order; members are read by key below, and only the members of a struct are
  compared as a list.
\<close>

datatype json =
    JString string
  | JNumber int
  | JArray "json list"
  | JObject "(string \<times> json) list"

text \<open>
  What a handler does beyond returning is kept as the list of its calls, in order:
  the query sent to PostgreSQL, the calls on the \<^verbatim>\<open>*sql.Rows\<close> it got back (on a
  live cursor or on nil), and the responses written to the client.
\<close>

datatype receiver = OnNil | Cursor

datatype event =
    DbQuery string
  | RowsNext receiver
  | RowsScan
  | RowsClose receiver
  | WriteJSON nat json
  | WritePlain nat string
  | WriteRedirect nat string

text \<open>
  How a handler ends: its calls, and whether it ended in a panic (which the recovery
  middleware of \<^verbatim>\<open>gin.Default()\<close> catches, so the server goes on).
\<close>

record outcome =
  events :: "event list"
  panicked :: bool


text \<open>The responses written, as (status code, body), in order.\<close>

fun written :: "event list \<Rightarrow> (nat \<times> json) list" where
  "written [] = []"
| "written (WriteJSON code body # es) = (code, body) # written es"
| "written (e # es) = written es"

fun member_of :: "json \<Rightarrow> string \<Rightarrow> json option" where
  "member_of (JObject kvs) k = map_of kvs k"
| "member_of j k = None"

fun member_names :: "json \<Rightarrow> string list" where
  "member_names (JObject kvs) = map fst kvs"
| "member_names j = []"

section \<open>The user service's database\<close>

text \<open>
  \<^verbatim>\<open>type User struct\<close> with the fields \<^verbatim>\<open>ID int\<close>, \<^verbatim>\<open>Email string\<close> and
  \<^verbatim>\<open>Username string\<close>, tagged for JSON as id, email and username.
\<close>

record user =
  ID :: int
  Email :: string
  Username :: string

definition user_json :: "user \<Rightarrow> json" where
  "user_json u =
     JObject [(''id'', JNumber (ID u)), (''email'', JString (Email u)),
              (''username'', JString (Username u))]"

definition users_json :: "user list \<Rightarrow> json" where
  "users_json users = JObject [(''users'', JArray (map user_json users))]"

text \<open>
  A row of the result set is what \<^verbatim>\<open>rows.Scan(&u.ID, &u.Email, &u.Username)\<close> makes of
  it: the user it fills, or the error it returns when a column does not convert.
\<close>

datatype row = Scans user | ScanFails string

fun Scan :: "row \<Rightarrow> string + user" where
  "Scan (Scans u) = Inr u"
| "Scan (ScanFails err) = Inl err"

text \<open>
  The database is either unreachable (\<^verbatim>\<open>db.Query\<close> returns the error and nil rows) or
  serves the table \<^verbatim>\<open>user_service.users\<close>. A \<^verbatim>\<open>*sql.Rows\<close> is nil or a cursor over
  the rows the server sent.
\<close>

datatype database = Unavailable string | Serving "row list"

datatype rows = NilRows | Rows "row list"

definition users_query :: string where
  "users_query = ''SELECT id, email, username FROM user_service.users LIMIT 10''"

text \<open>
  \<^verbatim>\<open>rows, err := db.Query(query)\<close> for the query above: the server applies
  \<^verbatim>\<open>LIMIT 10\<close>.
\<close>

fun Query :: "database \<Rightarrow> rows \<times> string option" where
  "Query (Unavailable err) = (NilRows, Some err)"
| "Query (Serving table) = (Rows (take 10 table), None)"

text \<open>
  A method of \<^verbatim>\<open>*sql.Rows\<close> called on nil dereferences its receiver, so the running
  program panics there (\<open>Panics\<close>). \<open>ReportsNoRows\<close> is the other reading a caller can
  take of a nil result: \<^verbatim>\<open>Next\<close> answers false and \<^verbatim>\<open>Close\<close> does nothing.
\<close>

datatype nil_receiver = Panics | ReportsNoRows

section \<open>Handlers\<close>

text \<open>
  A handler is either a closure that writes one fixed JSON response,
  \<^verbatim>\<open>func(c *gin.Context) { c.JSON(code, gin.H{...}) }\<close>, or the user service's
  \<^verbatim>\<open>/users\<close> closure.
\<close>

datatype handler = Respond nat json | ListUsers

definition health_body :: "string \<Rightarrow> json" where
  "health_body service =
     JObject [(''status'', JString ''healthy''), (''service'', JString service)]"

definition gateway_health :: handler where
  "gateway_health = Respond 200 (health_body ''api-gateway'')"

definition gateway_root :: handler where
  "gateway_root = Respond 200 (JObject [(''message'', JString ''Hello! - API Gateway'')])"

definition user_health :: handler where
  "user_health = Respond 200 (health_body ''user-service'')"

definition order_health :: handler where
  "order_health = Respond 200 (health_body ''order-service'')"

definition notification_health :: handler where
  "notification_health = Respond 200 (health_body ''notification-service'')"

definition inventory_health :: handler where
  "inventory_health = Respond 200 (health_body ''inventory-service'')"

text \<open>
  The loop \<^verbatim>\<open>for rows.Next() { var u User; if err := rows.Scan(...); err != nil { continue }; users = append(users, u) }\<close>
  over a live cursor; the last \<^verbatim>\<open>Next\<close> answers false.
\<close>

fun scan_rows :: "row list \<Rightarrow> user list \<Rightarrow> event list \<Rightarrow> user list \<times> event list" where
  "scan_rows [] users evs = (users, evs @ [RowsNext Cursor])"
| "scan_rows (r # rs) users evs =
     (case Scan r of
        Inl err \<Rightarrow> scan_rows rs users (evs @ [RowsNext Cursor, RowsScan])
      | Inr u \<Rightarrow> scan_rows rs (users @ [u]) (evs @ [RowsNext Cursor, RowsScan]))"

text \<open>
  The handler from \<^verbatim>\<open>defer rows.Close()\<close> on: the loop, the 200 response, and the
  deferred \<^verbatim>\<open>Close\<close> last (it also runs while a panic unwinds).
\<close>

fun after_query :: "nil_receiver \<Rightarrow> rows \<Rightarrow> event list \<Rightarrow> outcome" where
  "after_query nr (Rows rs) evs =
     (case scan_rows rs [] evs of
        (users, evs') \<Rightarrow>
          \<lparr>events = evs' @ [WriteJSON 200 (users_json users), RowsClose Cursor],
           panicked = False\<rparr>)"
| "after_query Panics NilRows evs =
     \<lparr>events = evs @ [RowsNext OnNil, RowsClose OnNil], panicked = True\<rparr>"
| "after_query ReportsNoRows NilRows evs =
     \<lparr>events = evs @ [RowsNext OnNil, WriteJSON 200 (users_json []), RowsClose OnNil],
      panicked = False\<rparr>"

text \<open>
  \<^verbatim>\<open>router.GET("/users", ...)\<close>: the error branch writes the 500 response and has no
  \<^verbatim>\<open>return\<close>, so both branches go on to the rest of the body.
\<close>

definition users_handler :: "nil_receiver \<Rightarrow> database \<Rightarrow> outcome" where
  "users_handler nr db =
     (case Query db of
        (rows, Some err) \<Rightarrow>
          after_query nr rows
            [DbQuery users_query, WriteJSON 500 (JObject [(''error'', JString err)])]
      | (rows, None) \<Rightarrow> after_query nr rows [DbQuery users_query])"

fun run_handler :: "nil_receiver \<Rightarrow> database \<Rightarrow> handler \<Rightarrow> outcome" where
  "run_handler nr db (Respond code body) = \<lparr>events = [WriteJSON code body], panicked = False\<rparr>"
| "run_handler nr db ListUsers = users_handler nr db"

section \<open>The gin engine\<close>

text \<open>
  \<^verbatim>\<open>gin.Default()\<close> is \<^verbatim>\<open>gin.New()\<close> with the logger and recovery middleware; the
  engine's routing switches keep the values \<^verbatim>\<open>New\<close> gives them, since the source sets
  none. The routes are kept by (method, path), in the order of registration.
\<close>

record Engine =
  RedirectTrailingSlash :: bool
  RedirectFixedPath :: bool
  HandleMethodNotAllowed :: bool
  trees :: "((string \<times> string) \<times> handler) list"

definition Default :: Engine where
  "Default =
     \<lparr>RedirectTrailingSlash = True, RedirectFixedPath = False,
      HandleMethodNotAllowed = False, trees = []\<rparr>"

text \<open>
  The API gateway's \<^verbatim>\<open>main\<close>: \<^verbatim>\<open>router := gin.Default()\<close>, then
  \<^verbatim>\<open>router.GET("/health", ...)\<close> and \<^verbatim>\<open>router.GET("/", ...)\<close>.
\<close>

definition api_gateway :: Engine where
  "api_gateway =
     Default\<lparr>trees := [((''GET'', ''/health''), gateway_health), ((''GET'', ''/''), gateway_root)]\<rparr>"

text \<open>
  The user service's \<^verbatim>\<open>main\<close>, once the database connection is open:
  \<^verbatim>\<open>router.GET("/health", ...)\<close> and \<^verbatim>\<open>router.GET("/users", ...)\<close>.
\<close>

definition user_service :: Engine where
  "user_service =
     Default\<lparr>trees := [((''GET'', ''/health''), user_health), ((''GET'', ''/users''), ListUsers)]\<rparr>"

text \<open>
  What the model of routing below covers: paths without parameter (\<open>:name\<close>) or
  catch-all (\<open>*name\<close>) segments, no (method, path) registered twice (gin panics at
  such a registration), and the fixed-path redirect switched off.
\<close>

definition static_path :: "string \<Rightarrow> bool" where
  "static_path p = (CHR '':'' \<notin> set p \<and> CHR ''*'' \<notin> set p)"

definition static_routes :: "Engine \<Rightarrow> bool" where
  "static_routes e =
     (list_all (\<lambda>k. static_path (snd k)) (map fst (trees e)) \<and>
      distinct (map fst (trees e)) \<and> RedirectFixedPath e = False)"

datatype resolution =
    Found handler
  | Redirect nat string
  | MethodNotAllowed
  | NotFound

text \<open>
  The trailing-slash recommendation, as documented for \<^verbatim>\<open>RedirectTrailingSlash\<close>: the
  request's path has no handler, but the path with (or without) the trailing slash has
  one under the same method.
\<close>

definition tsr :: "Engine \<Rightarrow> string \<Rightarrow> string \<Rightarrow> bool" where
  "tsr e m p =
     ((m, p @ ''/'') \<in> set (map fst (trees e)) \<or>
      (p \<noteq> [] \<and> last p = CHR ''/'' \<and> (m, butlast p) \<in> set (map fst (trees e))))"

definition redirectTrailingSlash :: "string \<Rightarrow> string \<Rightarrow> resolution" where
  "redirectTrailingSlash m p =
     Redirect (if m = ''GET'' then 301 else 307)
       (if 1 < length p \<and> last p = CHR ''/'' then butlast p else p @ ''/'')"

text \<open>
  \<^verbatim>\<open>handleHTTPRequest\<close>, for a request without an \<^verbatim>\<open>X-Forwarded-Prefix\<close> header: the
  tree of the request's method is searched for the path; without a handler there, a
  trailing-slash redirect is tried; then, only if \<^verbatim>\<open>HandleMethodNotAllowed\<close> is set,
  the other methods' trees are searched and a hit answers 405; everything else is 404.
\<close>

definition handleHTTPRequest :: "Engine \<Rightarrow> string \<Rightarrow> string \<Rightarrow> resolution" where
  "handleHTTPRequest e m p =
     (case map_of (trees e) (m, p) of
        Some h \<Rightarrow> Found h
      | None \<Rightarrow>
          if m \<noteq> ''CONNECT'' \<and> p \<noteq> ''/'' \<and> RedirectTrailingSlash e \<and> tsr e m p
          then redirectTrailingSlash m p
          else if HandleMethodNotAllowed e \<and>
                  list_ex (\<lambda>k. fst k \<noteq> m \<and> snd k = p) (map fst (trees e))
          then MethodNotAllowed
          else NotFound)"

definition ServeHTTP :: "Engine \<Rightarrow> nil_receiver \<Rightarrow> database \<Rightarrow> string \<Rightarrow> string \<Rightarrow> outcome" where
  "ServeHTTP e nr db m p =
     (case handleHTTPRequest e m p of
        Found h \<Rightarrow> run_handler nr db h
      | Redirect code location \<Rightarrow> \<lparr>events = [WriteRedirect code location], panicked = False\<rparr>
      | MethodNotAllowed \<Rightarrow> \<lparr>events = [WritePlain 405 ''405 method not allowed''], panicked = False\<rparr>
      | NotFound \<Rightarrow> \<lparr>events = [WritePlain 404 ''404 page not found''], panicked = False\<rparr>)"

section \<open>The handler registrations of the five services\<close>

text \<open>
  Each \<^verbatim>\<open>router.<call>(path, handler)\<close> of the five \<^verbatim>\<open>main\<close> functions, with the
  identifier the source writes after \<^verbatim>\<open>router.\<close>.
\<close>

record registration =
  reg_service :: string
  reg_call :: string
  reg_path :: string
  reg_handler :: handler

definition registrations :: "registration list" where
  "registrations =
     [\<lparr>reg_service = ''api-gateway'', reg_call = ''GET'', reg_path = ''/health'',
       reg_handler = gateway_health\<rparr>,
      \<lparr>reg_service = ''api-gateway'', reg_call = ''GET'', reg_path = ''/'',
       reg_handler = gateway_root\<rparr>,
      \<lparr>reg_service = ''user-service'', reg_call = ''GET'', reg_path = ''/health'',
       reg_handler = user_health\<rparr>,
      \<lparr>reg_service = ''user-service'', reg_call = ''GET'', reg_path = ''/users'',
       reg_handler = ListUsers\<rparr>,
      \<lparr>reg_service = ''order-service'', reg_call = ''get'', reg_path = ''/health'',
       reg_handler = order_health\<rparr>,
      \<lparr>reg_service = ''notification-service'', reg_call = ''get'', reg_path = ''/health'',
       reg_handler = notification_health\<rparr>,
      \<lparr>reg_service = ''inventory-service'', reg_call = ''get'', reg_path = ''/health'',
       reg_handler = inventory_health\<rparr>]"

text \<open>
  The methods of a gin router that register a handler for a path. Go identifiers are
  case-sensitive, and \<^verbatim>\<open>*gin.Engine\<close> has no method \<^verbatim>\<open>get\<close>.
\<close>

definition valid_call :: "string \<Rightarrow> bool" where
  "valid_call c =
     (c \<in> set [''GET'', ''POST'', ''PUT'', ''PATCH'', ''DELETE'', ''OPTIONS'', ''HEAD'', ''Any''])"

text \<open>A placeholder health check: a fixed 200 response whose status member is healthy.\<close>

fun placeholder_health :: "handler \<Rightarrow> bool" where
  "placeholder_health (Respond code body) =
     (code = 200 \<and> member_of body ''status'' = Some (JString ''healthy''))"
| "placeholder_health ListUsers = False"

text \<open>The registrations split by whether the call names a method of the router.\<close>

definition invalid_registrations :: "registration list" where
  "invalid_registrations = filter (\<lambda>r. \<not> valid_call (reg_call r)) registrations"

definition valid_registrations :: "registration list" where
  "valid_registrations = filter (\<lambda>r. valid_call (reg_call r)) registrations"


section \<open>The health response the specification describes\<close>

text \<open>
  The shape \<^verbatim>\<open>{status: healthy|degraded|unhealthy, endpoints: [{name, state, lastSuccess, failureCount}]}\<close>,
  written from the specification's words to compare the gateway's response with.
\<close>

definition spec_endpoint_shape :: "json \<Rightarrow> bool" where
  "spec_endpoint_shape j = (member_names j = [''name'', ''state'', ''lastSuccess'', ''failureCount''])"

definition spec_health_shape :: "json \<Rightarrow> bool" where
  "spec_health_shape j =
     (case (member_of j ''status'', member_of j ''endpoints'') of
        (Some (JString s), Some (JArray eps)) \<Rightarrow>
          s \<in> set [''healthy'', ''degraded'', ''unhealthy''] \<and> list_all spec_endpoint_shape eps
      | _ \<Rightarrow> False)"

text \<open>
  The Health Record and the overall status the specification describes, written from its
  words to compare the gateway's status with: healthy if all endpoints are closed,
  unhealthy if all endpoints of some capability are open (every capability taken as
  required), degraded otherwise.
\<close>

datatype circuit_state = CircuitClosed | CircuitOpen | CircuitHalfOpen




section \<open>Facts about the engines and the row loop\<close>

lemma gateway_resolves_health:
  "handleHTTPRequest api_gateway ''GET'' ''/health'' = Found gateway_health"
  by (simp add: handleHTTPRequest_def api_gateway_def)

lemma gateway_serves_health:
  "ServeHTTP api_gateway nr db ''GET'' ''/health'' =
     \<lparr>events = [WriteJSON 200 (health_body ''api-gateway'')], panicked = False\<rparr>"
  by (simp add: ServeHTTP_def gateway_resolves_health gateway_health_def)

lemma user_service_serves_users:
  "ServeHTTP user_service nr db ''GET'' ''/users'' = users_handler nr db"
  by (simp add: ServeHTTP_def handleHTTPRequest_def user_service_def)







section \<open>The gateway's health endpoint\<close>

text \<open>
  The gateway's answer to \<^verbatim>\<open>GET /health\<close> does not have the shape
  \<^verbatim>\<open>{status, endpoints: [...]}\<close>: it has no endpoints member.
\<close>

theorem gateway_health_not_spec_shape:
  "written (events (ServeHTTP api_gateway Panics (Serving []) ''GET'' ''/health'')) =
     [(200, health_body ''api-gateway'')] \<and>
   \<not> spec_health_shape (health_body ''api-gateway'')"
  by (simp add: gateway_serves_health spec_health_shape_def health_body_def)

text \<open>
  C1, as amended. For every request to the gateway's health endpoint, whatever the state
  of the rest of the system, the handler writes one response: status 200 with the JSON
  object whose members are status, always \<^verbatim>\<open>healthy\<close> (one of healthy, degraded and
  unhealthy), and service, \<^verbatim>\<open>api-gateway\<close>. The object has no endpoints member: the
  gateway knows no capability endpoints to list.
\<close>

theorem gateway_health_response:
  "ServeHTTP api_gateway nr db ''GET'' ''/health'' =
     \<lparr>events = [WriteJSON 200 (JObject [(''status'', JString ''healthy''),
                                       (''service'', JString ''api-gateway'')])],
      panicked = False\<rparr> \<and>
   member_of (health_body ''api-gateway'') ''status'' = Some (JString ''healthy'') \<and>
   ''healthy'' \<in> set [''healthy'', ''degraded'', ''unhealthy''] \<and>
   member_of (health_body ''api-gateway'') ''endpoints'' = None"
  by (simp add: gateway_serves_health health_body_def)



section \<open>Routing\<close>

text \<open>
  \<^verbatim>\<open>/health\<close> is registered under GET. A POST to it is answered 404, not 405; and a GET
  of \<^verbatim>\<open>/health/\<close>, a path no route has, is answered with a redirect, not 404.
\<close>

theorem wrong_method_is_not_found:
  "((''GET'', ''/health''), gateway_health) \<in> set (trees api_gateway) \<and>
   handleHTTPRequest api_gateway ''POST'' ''/health'' = NotFound \<and>
   handleHTTPRequest api_gateway ''GET'' ''/health/'' = Redirect 301 ''/health''"
  by (simp add: handleHTTPRequest_def api_gateway_def Default_def tsr_def redirectTrailingSlash_def)

text \<open>
  C2, as amended. On an engine with static routes and \<^verbatim>\<open>HandleMethodNotAllowed\<close> off
  (as \<^verbatim>\<open>gin.Default()\<close> leaves it): a request carrying
  exactly a registered route's (method, path) resolves to that route's handler; a request
  whose (method, path) is not registered is answered with the trailing-slash redirect
  when one applies and fails with NotFound otherwise; a request whose method has no route
  at all fails with NotFound, also when its path is registered under another method; and
  no request fails with MethodNotAllowed.
\<close>

theorem router_resolution_default:
  assumes "static_routes e" and "\<not> HandleMethodNotAllowed e"
  shows "(((m, p), h) \<in> set (trees e) \<longrightarrow> handleHTTPRequest e m p = Found h) \<and>
         ((m, p) \<notin> set (map fst (trees e)) \<longrightarrow>
            handleHTTPRequest e m p =
              (if m \<noteq> ''CONNECT'' \<and> p \<noteq> ''/'' \<and> RedirectTrailingSlash e \<and> tsr e m p
               then redirectTrailingSlash m p else NotFound)) \<and>
         (m \<notin> set (map (fst \<circ> fst) (trees e)) \<longrightarrow> handleHTTPRequest e m p = NotFound) \<and>
         handleHTTPRequest e m p \<noteq> MethodNotAllowed"
proof -
  have found: "handleHTTPRequest e m p = Found h" if "((m, p), h) \<in> set (trees e)"
    using that assms(1) by (simp add: handleHTTPRequest_def static_routes_def)
  have missing: "map_of (trees e) (m, p) = None" if "(m, p) \<notin> set (map fst (trees e))"
    using that by (simp add: map_of_eq_None_iff)
  have unmatched: "handleHTTPRequest e m p =
      (if m \<noteq> ''CONNECT'' \<and> p \<noteq> ''/'' \<and> RedirectTrailingSlash e \<and> tsr e m p
       then redirectTrailingSlash m p else NotFound)" if "(m, p) \<notin> set (map fst (trees e))"
    using missing [OF that] assms(2) by (simp add: handleHTTPRequest_def)
  have no_tree: "handleHTTPRequest e m p = NotFound" if "m \<notin> set (map (fst \<circ> fst) (trees e))"
  proof -
    from that have a: "\<And>q. (m, q) \<notin> set (map fst (trees e))" by force
    from a have "\<not> tsr e m p" by (simp add: tsr_def)
    with unmatched [OF a] show ?thesis by simp
  qed
  have never: "handleHTTPRequest e m p \<noteq> MethodNotAllowed"
    using assms(2)
    by (simp add: handleHTTPRequest_def redirectTrailingSlash_def split: option.splits)
  from found unmatched no_tree never show ?thesis by blast
qed

text \<open>The gateway's engine meets both conditions; three requests to it.\<close>

theorem router_resolution_default_witness:
  "handleHTTPRequest api_gateway ''GET'' ''/'' = Found gateway_root \<and>
   handleHTTPRequest api_gateway ''GET'' ''/missing'' = NotFound \<and>
   handleHTTPRequest api_gateway ''POST'' ''/health'' = NotFound \<and>
   handleHTTPRequest api_gateway ''POST'' ''/health'' \<noteq> MethodNotAllowed"
proof -
  have s: "static_routes api_gateway"
    by (simp add: static_routes_def static_path_def api_gateway_def Default_def)
  have n: "\<not> HandleMethodNotAllowed api_gateway" by (simp add: api_gateway_def Default_def)
  from router_resolution_default [OF s n, of "''GET''" "''/''" gateway_root]
  have a: "handleHTTPRequest api_gateway ''GET'' ''/'' = Found gateway_root"
    by (simp add: api_gateway_def)
  from router_resolution_default [OF s n, of "''GET''" "''/missing''" gateway_root]
  have b: "handleHTTPRequest api_gateway ''GET'' ''/missing'' = NotFound"
    by (simp add: api_gateway_def tsr_def)
  from router_resolution_default [OF s n, of "''POST''" "''/health''" gateway_root]
  have c: "handleHTTPRequest api_gateway ''POST'' ''/health'' = NotFound \<and>
           handleHTTPRequest api_gateway ''POST'' ''/health'' \<noteq> MethodNotAllowed"
    by (simp add: api_gateway_def tsr_def)
  from a b c show ?thesis by simp
qed

section \<open>Handler registrations\<close>

text \<open>The calls with an invalid method name are not exactly one.\<close>

theorem invalid_registration_count: "length invalid_registrations \<noteq> 1"
  by (simp add: invalid_registrations_def registrations_def valid_call_def)

text \<open>
  C3, as amended. Of the seven handler registrations of the five services, three use an
  invalid method name: the \<^verbatim>\<open>router.get\<close> of the order, notification and inventory
  services. The other four use the valid \<^verbatim>\<open>GET\<close>. Every handler is a placeholder health
  check except two: the gateway's \<^verbatim>\<open>/\<close> and the user service's \<^verbatim>\<open>/users\<close>.
\<close>

theorem registration_calls:
  "length registrations = 7 \<and>
   map reg_service invalid_registrations =
     [''order-service'', ''notification-service'', ''inventory-service''] \<and>
   map reg_call invalid_registrations = [''get'', ''get'', ''get''] \<and>
   map reg_call valid_registrations = [''GET'', ''GET'', ''GET'', ''GET''] \<and>
   map (\<lambda>r. (reg_service r, reg_path r))
     (filter (\<lambda>r. \<not> placeholder_health (reg_handler r)) registrations) =
     [(''api-gateway'', ''/''), (''user-service'', ''/users'')]"
  by (simp add: invalid_registrations_def valid_registrations_def registrations_def valid_call_def
      gateway_health_def gateway_root_def user_health_def order_health_def
      notification_health_def inventory_health_def health_body_def)

section \<open>The user service's users endpoint\<close>

text \<open>
  C8. When the query fails, the handler writes the 500 response with the error and goes
  on into the rest of the body with nil rows: it calls \<^verbatim>\<open>Next\<close> on nil, and the deferred
  \<^verbatim>\<open>Close\<close> on nil. Where those calls panic, the request ends in the panic; where they
  do not, the handler writes a second response, 200 with an empty users list, for the same
  request.
\<close>

theorem users_query_failure_falls_through:
  "ServeHTTP user_service Panics (Unavailable err) ''GET'' ''/users'' =
     \<lparr>events = [DbQuery users_query, WriteJSON 500 (JObject [(''error'', JString err)]),
                RowsNext OnNil, RowsClose OnNil],
      panicked = True\<rparr> \<and>
   ServeHTTP user_service ReportsNoRows (Unavailable err) ''GET'' ''/users'' =
     \<lparr>events = [DbQuery users_query, WriteJSON 500 (JObject [(''error'', JString err)]),
                RowsNext OnNil, WriteJSON 200 (JObject [(''users'', JArray [])]),
                RowsClose OnNil],
      panicked = False\<rparr>"
  by (simp add: user_service_serves_users users_handler_def users_json_def)





end
